theory Spec2Isabelle
  imports Main "HOL-Library.Word"
begin

text \<open>
  A model of the backend of the recruitment platform: the access guard
  (\<^verbatim>\<open>middleware/auth.ts\<close>), the request validators (\<^verbatim>\<open>middleware/validators.ts\<close>),
  the profile handlers (\<^verbatim>\<open>controllers/users.ts\<close>) and the two routers, over a User
  collection that follows \<^verbatim>\<open>UserSchema\<close> as the database documentation lists it.
  The store is a list of records and every operation is a function from the store and
  the request to the response and the new store; nothing else is shared between
  requests. A failure of the connection to the database is not modelled.
\<close>

section \<open>Request data\<close>

text \<open>
  The Express JSON body parser hands the handlers parsed JSON. A property that is
  missing from an object reads as \<^verbatim>\<open>undefined\<close>; it is modelled as \<open>None\<close> of
  \<open>json option\<close>.

  A number of a body is a double. The numbers of the model are the integers from
  \<open>-2^53\<close> to \<open>2^53 - 1\<close>, the values of a signed word of 54 bits: a double holds
  each of them exactly, and the language prints each as its decimal digits. A number
  with a fraction, or of larger magnitude, is outside the model.

  A string is a sequence of characters below U+0100, one \<open>char\<close> per UTF-16 code
  unit; on these every version of validator.js counts the length of a string as the
  language does.
\<close>

type_synonym int54 = "54 word"

datatype json =
    JNull
  | JBool bool
  | JNum int54
  | JStr string
  | JArr "json list"
  | JObj "(string \<times> json) list"

text \<open>JavaScript truthiness, as tested by \<^verbatim>\<open>if (name)\<close>.\<close>

fun truthy :: "json option \<Rightarrow> bool" where
  "truthy None = False"
| "truthy (Some JNull) = False"
| "truthy (Some (JBool b)) = b"
| "truthy (Some (JNum n)) = (n \<noteq> 0)"
| "truthy (Some (JStr s)) = (s \<noteq> [])"
| "truthy (Some (JArr xs)) = True"
| "truthy (Some (JObj kvs)) = True"

subsection \<open>Strings\<close>

text \<open>The characters matched by the regular expression class \<^verbatim>\<open>\s\<close>, below U+0100.\<close>

definition is_space :: "char \<Rightarrow> bool" where
  "is_space c = (of_char c \<in> {9, 10, 11, 12, 13, 32, 160 :: nat})"

definition ltrim :: "string \<Rightarrow> string" where
  "ltrim s = dropWhile is_space s"

definition rtrim :: "string \<Rightarrow> string" where
  "rtrim s = rev (dropWhile is_space (rev s))"

text \<open>validator.js \<^verbatim>\<open>trim(str)\<close> is \<^verbatim>\<open>rtrim(ltrim(str))\<close>; \<^verbatim>\<open>String.prototype.trim\<close>
  removes the same characters.\<close>

definition trim :: "string \<Rightarrow> string" where
  "trim s = rtrim (ltrim s)"

definition is_digit :: "char \<Rightarrow> bool" where
  "is_digit c = (48 \<le> (of_char c :: nat) \<and> (of_char c :: nat) \<le> 57)"

definition digit_char :: "nat \<Rightarrow> char" where
  "digit_char d = char_of (48 + d)"

function int_digits :: "int \<Rightarrow> string" where
  "int_digits i = (if i < 10 then [digit_char (nat i)] else int_digits (i div 10) @ [digit_char (nat (i mod 10))])"
  by pat_completeness auto
termination
  by (relation "measure nat") auto

declare int_digits.simps [simp del]

text \<open>\<^verbatim>\<open>String(n)\<close> for a number of the model: its decimal digits, after a minus sign
  when it is negative.\<close>

definition js_String :: "int54 \<Rightarrow> string" where
  "js_String n = (if sint n < 0 then CHR ''-'' # int_digits (- sint n) else int_digits (sint n))"

subsection \<open>Numerals\<close>

text \<open>A non-empty run of decimal digits, and a string without its leading sign.\<close>

definition digits1 :: "string \<Rightarrow> bool" where
  "digits1 s = (s \<noteq> [] \<and> list_all is_digit s)"

definition strip_sign :: "string \<Rightarrow> string" where
  "strip_sign s = (case s of [] \<Rightarrow> [] | c # cs \<Rightarrow> if c = CHR ''+'' \<or> c = CHR ''-'' then cs else s)"

text \<open>
  The numerals that \<^verbatim>\<open>Number(s)\<close> reads (\<^verbatim>\<open>StringNumericLiteral\<close> of the language
  definition): after white space is dropped, a binary, octal or hexadecimal literal
  without a sign, or an optionally signed \<^verbatim>\<open>Infinity\<close> or decimal literal, which has
  digits before or after an optional point and an optional exponent part.
\<close>

definition is_exponent :: "string \<Rightarrow> bool" where
  "is_exponent s =
     (case s of
        [] \<Rightarrow> True
      | c # cs \<Rightarrow> (c = CHR ''e'' \<or> c = CHR ''E'') \<and> digits1 (strip_sign cs))"

definition is_unsigned_decimal :: "string \<Rightarrow> bool" where
  "is_unsigned_decimal s =
     (s = ''Infinity'' \<or>
      (case dropWhile is_digit s of
         [] \<Rightarrow> s \<noteq> []
       | c # cs \<Rightarrow>
           if c = CHR ''.''
           then (takeWhile is_digit s \<noteq> [] \<or> takeWhile is_digit cs \<noteq> []) \<and> is_exponent (dropWhile is_digit cs)
           else takeWhile is_digit s \<noteq> [] \<and> is_exponent (c # cs)))"

definition is_radix_digit :: "nat \<Rightarrow> char \<Rightarrow> bool" where
  "is_radix_digit r c =
     (let n = of_char c :: nat in
      (48 \<le> n \<and> n < 48 + min r 10) \<or>
      (r = 16 \<and> ((65 \<le> n \<and> n \<le> 70) \<or> (97 \<le> n \<and> n \<le> 102))))"

definition is_radix_literal :: "string \<Rightarrow> bool" where
  "is_radix_literal s =
     (case s of
        z # x # ds \<Rightarrow>
          z = CHR ''0'' \<and> ds \<noteq> [] \<and>
          ((x \<in> set ''xX'' \<and> list_all (is_radix_digit 16) ds) \<or>
           (x \<in> set ''oO'' \<and> list_all (is_radix_digit 8) ds) \<or>
           (x \<in> set ''bB'' \<and> list_all (is_radix_digit 2) ds))
      | _ \<Rightarrow> False)"

definition is_numeric_literal :: "string \<Rightarrow> bool" where
  "is_numeric_literal t = (is_radix_literal t \<or> is_unsigned_decimal (strip_sign t))"

text \<open>The value of an optionally signed run of decimal digits.\<close>

fun digits_value :: "int \<Rightarrow> string \<Rightarrow> int" where
  "digits_value acc [] = acc"
| "digits_value acc (c # cs) = digits_value (10 * acc + (of_char c - 48)) cs"

definition integer_literal :: "string \<Rightarrow> int option" where
  "integer_literal t =
     (if digits1 (strip_sign t)
      then Some (if take 1 t = ''-'' then - digits_value 0 (strip_sign t) else digits_value 0 (strip_sign t))
      else None)"

text \<open>
  The numbers that the store holds and the server sends. \<open>Exact n\<close> is a number of the
  model. The other numbers are not computed: \<open>NumberOf t\<close> stands for the number that
  the language reads from the numeral \<open>t\<close> (\<^verbatim>\<open>Number("1.5")\<close>, \<^verbatim>\<open>Number("1e3")\<close>,
  \<^verbatim>\<open>Number("0x10")\<close>), so two different values of this type can stand for the same
  number. A numeral that is an integer of the model is computed.
\<close>

datatype number = Exact int54 | NumberOf string

text \<open>\<^verbatim>\<open>Number(s)\<close> on a string, \<open>None\<close> for \<^verbatim>\<open>NaN\<close>: surrounding white space is
  dropped and the empty string is \<open>0\<close>.\<close>

definition js_Number :: "string \<Rightarrow> number option" where
  "js_Number s =
     (let t = trim s in
      if t = [] then Some (Exact 0)
      else if is_numeric_literal t
      then (case integer_literal t of
              None \<Rightarrow> Some (NumberOf t)
            | Some i \<Rightarrow>
                if - 9007199254740992 \<le> i \<and> i < 9007199254740992 then Some (Exact (of_int i))
                else Some (NumberOf t))
      else None)"

section \<open>The User collection\<close>

text \<open>
  \<^verbatim>\<open>UserSchema\<close>: the stored document. The identifier is an ObjectId, a value of
  twelve bytes. \<open>experience\<close> has type Number and is not required, so it can hold
  \<^verbatim>\<open>null\<close> (\<open>None\<close>); an element of the \<^verbatim>\<open>[String]\<close> array \<open>skills\<close> can be
  \<^verbatim>\<open>null\<close> as well. Dates are instants on a clock of natural numbers.
\<close>

type_synonym objectid = "96 word"

datatype role = RoleUser | RoleRecruiter | RoleAdmin

record user =
  uid :: objectid
  name :: string
  email :: string
  password :: string
  role :: role
  skills :: "string option list"
  experience :: "number option"
  education :: string
  createdAt :: nat
  updatedAt :: nat

type_synonym db = "user list"

text \<open>
  The values that documents hold and responses carry: JSON, with the numbers of the
  store, and with ObjectIds and dates, which \<^verbatim>\<open>res.json\<close> sends as the 24
  hexadecimal digits of the id and as the ISO text of the date.
\<close>

datatype jsvalue =
    VNull
  | VBool bool
  | VNum number
  | VStr string
  | VArr "jsvalue list"
  | VObj "(string \<times> jsvalue) list"
  | VId objectid
  | VDate nat

type_synonym doc = "(string \<times> jsvalue) list"

fun role_name :: "role \<Rightarrow> string" where
  "role_name RoleUser = ''user''"
| "role_name RoleRecruiter = ''recruiter''"
| "role_name RoleAdmin = ''admin''"

text \<open>
  All paths of a stored document, as a plain object. \<^verbatim>\<open>__v\<close> is the version key
  that Mongoose adds to every document: \<open>0\<close> at creation, and changed only by
  \<^verbatim>\<open>save()\<close> on a document with a modified array, which no handler calls.
\<close>

definition toObject :: "user \<Rightarrow> doc" where
  "toObject u =
     [(''_id'', VId (uid u)),
      (''name'', VStr (name u)),
      (''email'', VStr (email u)),
      (''password'', VStr (password u)),
      (''role'', VStr (role_name (role u))),
      (''skills'', VArr (map (\<lambda>x. case x of None \<Rightarrow> VNull | Some s \<Rightarrow> VStr s) (skills u))),
      (''experience'', (case experience u of None \<Rightarrow> VNull | Some n \<Rightarrow> VNum n)),
      (''education'', VStr (education u)),
      (''createdAt'', VDate (createdAt u)),
      (''updatedAt'', VDate (updatedAt u)),
      (''__v'', VNum (Exact 0))]"

text \<open>The schema paths declared \<^verbatim>\<open>select: false\<close>: queries leave them out of what
  they return.\<close>

definition unselected :: "string list" where
  "unselected = [''password'']"

definition applySelect :: "doc \<Rightarrow> doc" where
  "applySelect d = filter (\<lambda>kv. fst kv \<notin> set unselected) d"

text \<open>
  \<^verbatim>\<open>User.findById(id)\<close> for an id that is an ObjectId; an undefined id matches no
  document. Given a string, the query first casts it to an ObjectId and throws a
  \<^verbatim>\<open>CastError\<close> when the string is not the text of one: that cast is \<open>castObjectId\<close>
  of the libraries below, applied where a string comes in, in the access guard. The
  handlers pass \<^verbatim>\<open>req.user.id\<close>, the text of the \<^verbatim>\<open>_id\<close> of a document that a
  query returned, which casts back to that \<^verbatim>\<open>_id\<close>.
\<close>

definition findById :: "db \<Rightarrow> objectid option \<Rightarrow> doc option" where
  "findById d i = map_option (\<lambda>u. applySelect (toObject u)) (find (\<lambda>u. Some (uid u) = i) d)"

text \<open>The \<^verbatim>\<open>id\<close> getter of a returned document.\<close>

definition doc_id :: "doc \<Rightarrow> objectid option" where
  "doc_id d = (case map_of d ''_id'' of Some (VId i) \<Rightarrow> Some i | _ \<Rightarrow> None)"

subsection \<open>Updates\<close>

text \<open>
  The four properties the update handler reads from the request body, and the
  \<^verbatim>\<open>updateFields\<close> object it builds from them.
\<close>

record profile_body =
  b_name :: "json option"
  b_skills :: "json option"
  b_experience :: "json option"
  b_education :: "json option"

datatype store_error = CastError string | ValidationError string

text \<open>
  Casting to the schema types, \<open>None\<close> when the cast throws. A String path takes a
  string, a number or a boolean; a Number path takes a number, a boolean, \<^verbatim>\<open>null\<close>
  (kept), the empty string (read as \<^verbatim>\<open>null\<close>) and a string that \<^verbatim>\<open>Number\<close> reads; an
  array path casts each element and wraps a value that is no array. Objects are taken
  as cast failures. The handler passes \<open>name\<close>, \<open>skills\<close> and \<open>education\<close> only when
  they are truthy, so \<^verbatim>\<open>null\<close> never reaches \<open>castString\<close> at top level.
\<close>

fun castString :: "json \<Rightarrow> string option" where
  "castString (JStr s) = Some s"
| "castString (JNum n) = Some (js_String n)"
| "castString (JBool b) = Some (if b then ''true'' else ''false'')"
| "castString JNull = None"
| "castString (JArr xs) = None"
| "castString (JObj kvs) = None"

fun castNumber :: "json \<Rightarrow> number option option" where
  "castNumber JNull = Some None"
| "castNumber (JNum n) = Some (Some (Exact n))"
| "castNumber (JBool b) = Some (Some (Exact (if b then 1 else 0)))"
| "castNumber (JStr s) =
     (if s = [] then Some None
      else case js_Number s of None \<Rightarrow> None | Some n \<Rightarrow> Some (Some n))"
| "castNumber (JArr xs) = None"
| "castNumber (JObj kvs) = None"

fun castElement :: "json \<Rightarrow> string option option" where
  "castElement JNull = Some None"
| "castElement v = map_option Some (castString v)"

fun castAll :: "json list \<Rightarrow> string option list option" where
  "castAll [] = Some []"
| "castAll (x # xs) =
     (case castElement x of
        None \<Rightarrow> None
      | Some y \<Rightarrow> (case castAll xs of None \<Rightarrow> None | Some ys \<Rightarrow> Some (y # ys)))"

fun castStringArray :: "json \<Rightarrow> string option list option" where
  "castStringArray (JArr xs) = castAll xs"
| "castStringArray v = castAll [v]"

text \<open>The update after casting: one optional value per path of \<^verbatim>\<open>$set\<close>.\<close>

record cast_update =
  c_name :: "string option"
  c_skills :: "string option list option"
  c_experience :: "number option option"
  c_education :: "string option"

text \<open>A path that the update does not mention is not cast.\<close>

fun castPath :: "(json \<Rightarrow> 'a option) \<Rightarrow> json option \<Rightarrow> 'a option option" where
  "castPath cast None = Some None"
| "castPath cast (Some v) = (case cast v of None \<Rightarrow> None | Some x \<Rightarrow> Some (Some x))"

text \<open>\<open>name\<close> is declared \<^verbatim>\<open>trim: true\<close>: the setter runs on the cast value.\<close>

definition castName :: "json \<Rightarrow> string option" where
  "castName v = (case castString v of None \<Rightarrow> None | Some s \<Rightarrow> Some (trim s))"

definition castUpdate :: "profile_body \<Rightarrow> store_error + cast_update" where
  "castUpdate f =
     (case castPath castName (b_name f) of
        None \<Rightarrow> Inl (CastError ''name'')
      | Some n \<Rightarrow>
     (case castPath castStringArray (b_skills f) of
        None \<Rightarrow> Inl (CastError ''skills'')
      | Some s \<Rightarrow>
     (case castPath castNumber (b_experience f) of
        None \<Rightarrow> Inl (CastError ''experience'')
      | Some x \<Rightarrow>
     (case castPath castString (b_education f) of
        None \<Rightarrow> Inl (CastError ''education'')
      | Some e \<Rightarrow> Inr \<lparr>c_name = n, c_skills = s, c_experience = x, c_education = e\<rparr>))))"

text \<open>\<^verbatim>\<open>runValidators: true\<close>: the validators of the paths being set. Only \<open>name\<close>
  declares any (\<^verbatim>\<open>required\<close>, \<^verbatim>\<open>maxlength: 50\<close>).\<close>

definition runValidators :: "cast_update \<Rightarrow> store_error option" where
  "runValidators c =
     (case c_name c of
        None \<Rightarrow> None
      | Some n \<Rightarrow> if n = [] \<or> length n > 50 then Some (ValidationError ''name'') else None)"

text \<open>\<^verbatim>\<open>$set\<close> writes the listed paths and no other.\<close>

definition applySet :: "cast_update \<Rightarrow> user \<Rightarrow> user" where
  "applySet c u =
     u\<lparr>name := (case c_name c of None \<Rightarrow> name u | Some n \<Rightarrow> n),
       skills := (case c_skills c of None \<Rightarrow> skills u | Some s \<Rightarrow> s),
       experience := (case c_experience c of None \<Rightarrow> experience u | Some x \<Rightarrow> x),
       education := (case c_education c of None \<Rightarrow> education u | Some e \<Rightarrow> e)\<rparr>"

fun updateFirst :: "objectid option \<Rightarrow> (user \<Rightarrow> user) \<Rightarrow> db \<Rightarrow> db" where
  "updateFirst i f [] = []"
| "updateFirst i f (u # us) = (if Some (uid u) = i then f u # us else u # updateFirst i f us)"

text \<open>
  \<^verbatim>\<open>User.findByIdAndUpdate(id, { $set: updateFields }, { new: true, runValidators: true })\<close>:
  a cast or validation failure throws before anything is written; otherwise the first
  document with that id is updated and returned as it is after the update, \<^verbatim>\<open>null\<close>
  when there is none. It is a query, so the \<^verbatim>\<open>pre('save')\<close> hooks of the schema do
  not run.
\<close>

definition findByIdAndUpdate :: "db \<Rightarrow> objectid option \<Rightarrow> profile_body \<Rightarrow> store_error + (doc option \<times> db)" where
  "findByIdAndUpdate d i f =
     (case castUpdate f of
        Inl e \<Rightarrow> Inl e
      | Inr c \<Rightarrow>
          (case runValidators c of
             Some e \<Rightarrow> Inl e
           | None \<Rightarrow>
               let d' = updateFirst i (applySet c) d
               in Inr (findById d' i, d')))"

section \<open>Responses\<close>

record response =
  status :: nat
  body :: jsvalue

definition server_error :: response where
  "server_error = \<lparr>status = 500, body = VObj [(''success'', VBool False), (''error'', VStr ''Server error'')]\<rparr>"

definition user_not_found :: response where
  "user_not_found = \<lparr>status = 404, body = VObj [(''success'', VBool False), (''error'', VStr ''User not found'')]\<rparr>"

definition success_data :: "doc \<Rightarrow> response" where
  "success_data d = \<lparr>status = 200, body = VObj [(''success'', VBool True), (''data'', VObj d)]\<rparr>"

section \<open>Profile handlers\<close>

definition buildUpdateFields :: "profile_body \<Rightarrow> profile_body" where
  "buildUpdateFields b =
     \<lparr>b_name = (if truthy (b_name b) then b_name b else None),
      b_skills = (if truthy (b_skills b) then b_skills b else None),
      b_experience = b_experience b,
      b_education = (if truthy (b_education b) then b_education b else None)\<rparr>"

text \<open>
  \<^verbatim>\<open>updateUserProfile\<close>. \<open>req_user\<close> is \<^verbatim>\<open>req.user\<close>, the document the access guard
  attached, \<open>None\<close> for \<^verbatim>\<open>null\<close>: reading \<^verbatim>\<open>.id\<close> of it then throws inside the
  \<^verbatim>\<open>try\<close> block.
\<close>

definition updateUserProfile :: "db \<Rightarrow> doc option \<Rightarrow> profile_body \<Rightarrow> response \<times> db" where
  "updateUserProfile d req_user b =
     (let updateFields = buildUpdateFields b in
      case req_user of
        None \<Rightarrow> (server_error, d)
      | Some ru \<Rightarrow>
          (case findByIdAndUpdate d (doc_id ru) updateFields of
             Inl e \<Rightarrow> (server_error, d)
           | Inr (None, d') \<Rightarrow> (user_not_found, d')
           | Inr (Some u, d') \<Rightarrow> (success_data u, d')))"

definition getUserProfile :: "db \<Rightarrow> doc option \<Rightarrow> response" where
  "getUserProfile d req_user =
     (case req_user of
        None \<Rightarrow> server_error
      | Some ru \<Rightarrow>
          (case findById d (doc_id ru) of
             None \<Rightarrow> user_not_found
           | Some u \<Rightarrow> success_data u))"

section \<open>Libraries\<close>

text \<open>
  The handlers call library functions whose code is not part of the repository. They
  are parameters of the model: \<open>isEmail\<close> and \<open>normalizeEmail\<close> of validator.js,
  \<open>bcrypt_hash\<close> (salting included) and \<open>bcrypt_compare\<close>, the two token functions
  with the secret and the clock built in, and the cast of a string to an ObjectId.
  \<open>jwt_sign i\<close> is \<^verbatim>\<open>jwt.sign({ id }, JWT_SECRET, { expiresIn: JWT_EXPIRE })\<close> for
  the \<^verbatim>\<open>_id\<close> of a document; \<open>jwt_verify t\<close> is the \<^verbatim>\<open>id\<close> of what
  \<^verbatim>\<open>jwt.verify(t, JWT_SECRET)\<close> decodes, a string, \<open>None\<close> when it throws;
  \<open>castObjectId s\<close> is the ObjectId that the database driver makes of the string
  \<open>s\<close>, \<open>None\<close> when it refuses the string.
\<close>

record libs =
  isEmail :: "string \<Rightarrow> bool"
  normalizeEmail :: "string \<Rightarrow> string"
  bcrypt_hash :: "string \<Rightarrow> string"
  bcrypt_compare :: "string \<Rightarrow> string \<Rightarrow> bool"
  jwt_sign :: "objectid \<Rightarrow> string"
  jwt_verify :: "string \<Rightarrow> string option"
  castObjectId :: "string \<Rightarrow> objectid option"

section \<open>The access guard\<close>

definition not_authorized :: response where
  "not_authorized = \<lparr>status = 401,
     body = VObj [(''success'', VBool False), (''error'', VStr ''Not authorized to access this route'')]\<rparr>"

text \<open>\<^verbatim>\<open>s.split(c)\<close> for a separator of one character.\<close>

fun split_on :: "char \<Rightarrow> string \<Rightarrow> string list" where
  "split_on c [] = [[]]"
| "split_on c (x # xs) =
     (if x = c then [] # split_on c xs
      else case split_on c xs of
        [] \<Rightarrow> [[x]]
      | w # ws \<Rightarrow> (x # w) # ws)"

text \<open>Reading an index of an array: \<^verbatim>\<open>undefined\<close> out of range.\<close>

definition at_index :: "'a list \<Rightarrow> nat \<Rightarrow> 'a option" where
  "at_index xs n = (if n < length xs then Some (xs ! n) else None)"

text \<open>What the middleware does with a request: it answers, or it calls \<^verbatim>\<open>next()\<close>
  with \<^verbatim>\<open>req.user\<close> set.\<close>

datatype guard = Respond response | Next "doc option"

text \<open>
  \<^verbatim>\<open>protect\<close>. Verifying the token and \<^verbatim>\<open>User.findById(decoded.id)\<close> stand in one
  \<^verbatim>\<open>try\<close> block: a token that does not verify and a decoded id that is not the text
  of an ObjectId both end in the \<^verbatim>\<open>catch\<close> block, which answers 401. The result of
  the query is stored in \<^verbatim>\<open>req.user\<close> as it is.
\<close>

definition protect :: "'a libs_scheme \<Rightarrow> db \<Rightarrow> string option \<Rightarrow> guard" where
  "protect L d authorization =
     (let token =
        (case authorization of
           None \<Rightarrow> None
         | Some a \<Rightarrow>
             if a \<noteq> [] \<and> take 6 a = ''Bearer'' then at_index (split_on CHR '' '' a) 1 else None)
      in case token of
           None \<Rightarrow> Respond not_authorized
         | Some t \<Rightarrow>
             if t = [] then Respond not_authorized
             else (case jwt_verify L t of
                     None \<Rightarrow> Respond not_authorized
                   | Some s \<Rightarrow>
                       (case castObjectId L s of
                          None \<Rightarrow> Respond not_authorized
                        | Some i \<Rightarrow> Next (findById d (Some i)))))"

section \<open>Request validators\<close>

text \<open>
  express-validator turns a value into a string before a validator.js function sees
  it: \<^verbatim>\<open>null\<close> and \<^verbatim>\<open>undefined\<close> are the empty string, an array or an object is
  what its own \<^verbatim>\<open>toString()\<close> gives, anything else is \<^verbatim>\<open>String(value)\<close>.
\<close>

fun join_comma :: "string list \<Rightarrow> string" where
  "join_comma [] = []"
| "join_comma [x] = x"
| "join_comma (x # y # ys) = x @ '','' @ join_comma (y # ys)"

fun js_toString :: "json \<Rightarrow> string" where
  "js_toString JNull = ''null''"
| "js_toString (JBool b) = (if b then ''true'' else ''false'')"
| "js_toString (JNum n) = js_String n"
| "js_toString (JStr s) = s"
| "js_toString (JArr xs) = join_comma (map (\<lambda>x. if x = JNull then [] else js_toString x) xs)"
| "js_toString (JObj kvs) = ''[object Object]''"

definition validator_toString :: "json option \<Rightarrow> string" where
  "validator_toString v = (case v of None \<Rightarrow> [] | Some JNull \<Rightarrow> [] | Some x \<Rightarrow> js_toString x)"

text \<open>A standard validator or sanitizer runs on every element of an array value, and on
  the value itself otherwise.\<close>

definition each_value :: "json option \<Rightarrow> json option list" where
  "each_value v = (case v of Some (JArr xs) \<Rightarrow> map Some xs | _ \<Rightarrow> [v])"

record validation_error =
  param :: string
  msg :: string

definition standard_validator :: "(string \<Rightarrow> bool) \<Rightarrow> string \<Rightarrow> string \<Rightarrow> json option \<Rightarrow> validation_error list" where
  "standard_validator ok p m v =
     map (\<lambda>x. \<lparr>param = p, msg = m\<rparr>) (filter (\<lambda>x. \<not> ok (validator_toString x)) (each_value v))"

definition custom_validator :: "(json option \<Rightarrow> bool) \<Rightarrow> string \<Rightarrow> string \<Rightarrow> json option \<Rightarrow> validation_error list" where
  "custom_validator ok p m v = (if ok v then [] else [\<lparr>param = p, msg = m\<rparr>])"

definition sanitize :: "(string \<Rightarrow> string) \<Rightarrow> json option \<Rightarrow> json option" where
  "sanitize f v =
     (case v of
        Some (JArr xs) \<Rightarrow> Some (JArr (map (\<lambda>x. JStr (f (validator_toString (Some x)))) xs))
      | _ \<Rightarrow> Some (JStr (f (validator_toString v))))"

text \<open>validator.js \<^verbatim>\<open>isNumeric\<close>: the pattern \<^verbatim>\<open>^[+-]?([0-9]*[.])?[0-9]+$\<close>.\<close>

definition isNumeric :: "string \<Rightarrow> bool" where
  "isNumeric s =
     (let r = strip_sign s
      in digits1 r \<or>
         (case dropWhile is_digit r of
            [] \<Rightarrow> False
          | c # cs \<Rightarrow> c = CHR ''.'' \<and> digits1 cs))"

text \<open>
  \<^verbatim>\<open>profileUpdateValidator\<close>. Every chain starts with \<^verbatim>\<open>optional()\<close>: a field that
  is \<^verbatim>\<open>undefined\<close> is skipped. The chains record their errors on the request and
  write sanitized values back into the body; the result is the pair of both.
\<close>

definition profileUpdateValidator :: "profile_body \<Rightarrow> validation_error list \<times> profile_body" where
  "profileUpdateValidator b =
     (let name' = (if b_name b = None then None else sanitize trim (b_name b));
          e1 = (if b_name b = None then []
                else standard_validator (\<lambda>s. length s \<le> 50) ''name'' ''Name cannot be more than 50 characters'' name');
          e2 = (if b_skills b = None then []
                else custom_validator (\<lambda>v. case v of Some (JArr xs) \<Rightarrow> True | _ \<Rightarrow> False)
                       ''skills'' ''Skills must be an array'' (b_skills b));
          e3 = (if b_experience b = None then []
                else standard_validator isNumeric ''experience'' ''Experience must be a number'' (b_experience b));
          e4 = (if b_education b = None then []
                else custom_validator (\<lambda>v. case v of Some (JStr s) \<Rightarrow> True | _ \<Rightarrow> False)
                       ''education'' ''Education must be a string'' (b_education b))
      in (e1 @ e2 @ e3 @ e4, b\<lparr>b_name := name'\<rparr>))"

text \<open>The errors recorded for one field.\<close>

definition errors_for :: "string \<Rightarrow> validation_error list \<Rightarrow> validation_error list" where
  "errors_for p es = filter (\<lambda>e. param e = p) es"

text \<open>
  \<^verbatim>\<open>registerValidator\<close>. A chain runs its validators and sanitizers in the order
  written, each on the value the sanitizers before it left: the name is tested for
  emptiness as submitted, then trimmed, then measured.
\<close>

record register_body =
  r_name :: "json option"
  r_email :: "json option"
  r_password :: "json option"

definition registerValidator :: "'a libs_scheme \<Rightarrow> register_body \<Rightarrow> validation_error list \<times> register_body" where
  "registerValidator L b =
     (let e1 = standard_validator (\<lambda>s. s \<noteq> []) ''name'' ''Name is required'' (r_name b);
          name' = sanitize trim (r_name b);
          e2 = standard_validator (\<lambda>s. length s \<le> 50) ''name'' ''Name cannot be more than 50 characters'' name';
          e3 = standard_validator (isEmail L) ''email'' ''Please include a valid email'' (r_email b);
          email' = sanitize (normalizeEmail L) (r_email b);
          e4 = standard_validator (\<lambda>s. 6 \<le> length s) ''password'' ''Password must be at least 6 characters'' (r_password b)
      in (e1 @ e2 @ e3 @ e4, b\<lparr>r_name := name', r_email := email'\<rparr>))"

section \<open>Routes of the users router\<close>

text \<open>
  \<^verbatim>\<open>router.use(protect)\<close>, then \<^verbatim>\<open>router.get('/profile', getUserProfile)\<close> and
  \<^verbatim>\<open>router.put('/profile', profileUpdateValidator, updateUserProfile)\<close>. The update
  handler never reads the errors the validators recorded.
\<close>

definition get_profile :: "'a libs_scheme \<Rightarrow> db \<Rightarrow> string option \<Rightarrow> response" where
  "get_profile L d authorization =
     (case protect L d authorization of
        Respond r \<Rightarrow> r
      | Next req_user \<Rightarrow> getUserProfile d req_user)"

definition put_profile :: "'a libs_scheme \<Rightarrow> db \<Rightarrow> string option \<Rightarrow> profile_body \<Rightarrow> response \<times> db" where
  "put_profile L d authorization b =
     (case protect L d authorization of
        Respond r \<Rightarrow> (r, d)
      | Next req_user \<Rightarrow> updateUserProfile d req_user (snd (profileUpdateValidator b)))"

section \<open>The schema on creation\<close>

text \<open>
  The pattern that the schema declares for \<open>email\<close>,
  \<^verbatim>\<open>/^\w+([.-]?\w+)*@\w+([.-]?\w+)*(\.\w{2,3})+$/\<close>, and what it is to match it. A
  regular expression is matched by its derivatives: \<open>rx_deriv c r\<close> matches what is
  left of a match of \<open>r\<close> after a first character \<open>c\<close>, and the empty string is
  matched by the expressions that are \<open>nullable\<close>.
\<close>

datatype char_class = WordChar | OneOf string

datatype regexp = Zero | One | Atom char_class | Alt regexp regexp | Seq regexp regexp | Star regexp

text \<open>The class \<^verbatim>\<open>\w\<close>: letters, digits and the underscore.\<close>

definition is_word_char :: "char \<Rightarrow> bool" where
  "is_word_char c =
     (let n = of_char c :: nat in
      (48 \<le> n \<and> n \<le> 57) \<or> (65 \<le> n \<and> n \<le> 90) \<or> (97 \<le> n \<and> n \<le> 122) \<or> n = 95)"

fun in_class :: "char_class \<Rightarrow> char \<Rightarrow> bool" where
  "in_class WordChar c = is_word_char c"
| "in_class (OneOf cs) c = (c \<in> set cs)"

fun nullable :: "regexp \<Rightarrow> bool" where
  "nullable Zero = False"
| "nullable One = True"
| "nullable (Atom a) = False"
| "nullable (Alt r s) = (nullable r \<or> nullable s)"
| "nullable (Seq r s) = (nullable r \<and> nullable s)"
| "nullable (Star r) = True"

text \<open>Alternative and sequence, with the empty language and the empty string
  simplified away.\<close>

definition rx_alt :: "regexp \<Rightarrow> regexp \<Rightarrow> regexp" where
  "rx_alt r s = (if r = Zero then s else if s = Zero then r else if r = s then r else Alt r s)"

definition rx_seq :: "regexp \<Rightarrow> regexp \<Rightarrow> regexp" where
  "rx_seq r s = (if r = Zero \<or> s = Zero then Zero else if r = One then s else if s = One then r else Seq r s)"

fun rx_deriv :: "char \<Rightarrow> regexp \<Rightarrow> regexp" where
  "rx_deriv c Zero = Zero"
| "rx_deriv c One = Zero"
| "rx_deriv c (Atom a) = (if in_class a c then One else Zero)"
| "rx_deriv c (Alt r s) = rx_alt (rx_deriv c r) (rx_deriv c s)"
| "rx_deriv c (Seq r s) =
     (if nullable r then rx_alt (rx_seq (rx_deriv c r) s) (rx_deriv c s) else rx_seq (rx_deriv c r) s)"
| "rx_deriv c (Star r) = rx_seq (rx_deriv c r) (Star r)"

text \<open>The whole string matches: the pattern is anchored at both ends.\<close>

fun rx_test :: "regexp \<Rightarrow> string \<Rightarrow> bool" where
  "rx_test r [] = nullable r"
| "rx_test r (c # cs) = rx_test (rx_deriv c r) cs"

definition rx_plus :: "regexp \<Rightarrow> regexp" where
  "rx_plus r = Seq r (Star r)"

definition rx_opt :: "regexp \<Rightarrow> regexp" where
  "rx_opt r = Alt One r"

text \<open>\<^verbatim>\<open>\w+([.-]?\w+)*\<close>, which the pattern has on both sides of the \<open>@\<close>.\<close>

definition rx_words :: regexp where
  "rx_words = Seq (rx_plus (Atom WordChar)) (Star (Seq (rx_opt (Atom (OneOf ''.-''))) (rx_plus (Atom WordChar))))"

definition email_pattern :: regexp where
  "email_pattern =
     Seq rx_words (Seq (Atom (OneOf ''@'')) (Seq rx_words
       (rx_plus (Seq (Atom (OneOf ''.'')) (Seq (Atom WordChar) (Seq (Atom WordChar) (rx_opt (Atom WordChar))))))))"

section \<open>Routes of the auth router\<close>

text \<open>
  \<^verbatim>\<open>router.post('/register', registerValidator, register)\<close>,
  \<^verbatim>\<open>router.post('/login', loginValidator, login)\<close> and
  \<^verbatim>\<open>router.get('/me', protect, getMe)\<close>. The three controllers and the User model
  file are not among the sources; the schema, its unique index on \<open>email\<close> and its
  hooks are listed in the repository's database documentation.
\<close>

text \<open>The responses of the three controllers, with the members and messages that the
  spec and the API documentation list.\<close>

definition validation_failed :: "validation_error list \<Rightarrow> response" where
  "validation_failed es = \<lparr>status = 400,
     body = VObj [(''success'', VBool False),
                  (''errors'', VArr (map (\<lambda>e. VObj [(''msg'', VStr (msg e)), (''param'', VStr (param e)),
                                                    (''location'', VStr ''body'')]) es))]\<rparr>"

definition duplicate_email :: response where
  "duplicate_email = \<lparr>status = 400,
     body = VObj [(''success'', VBool False), (''error'', VStr ''User already exists'')]\<rparr>"

definition invalid_credentials :: response where
  "invalid_credentials = \<lparr>status = 401,
     body = VObj [(''success'', VBool False), (''error'', VStr ''Invalid credentials'')]\<rparr>"

definition token_response :: "nat \<Rightarrow> string \<Rightarrow> response" where
  "token_response st t = \<lparr>status = st, body = VObj [(''success'', VBool True), (''token'', VStr t)]\<rparr>"

text \<open>A String path of a new document: the value cast to a string, \<open>None\<close> when the
  path is missing or \<^verbatim>\<open>null\<close> or the cast throws.\<close>

definition castField :: "json option \<Rightarrow> string option" where
  "castField v = (case v of None \<Rightarrow> None | Some x \<Rightarrow> castString x)"

text \<open>
  Modelled from the spec: \<^verbatim>\<open>User.create\<close> on the User model (models/User.ts is
  missing), with what the schema of the database documentation declares. The three
  paths are cast, the name is trimmed, and the validators run: all three paths are
  required; the name has at most 50 characters, the email matches the pattern, the
  password has at least 6 characters. Then the password is hashed, and the store
  enforces the unique index on \<open>email\<close>. A new record has role user, no skills,
  experience 0 and empty education, and both timestamps are the time of creation.
\<close>

datatype create_error = SchemaError string | DuplicateKey

definition create :: "'a libs_scheme \<Rightarrow> db \<Rightarrow> objectid \<Rightarrow> nat \<Rightarrow> json option \<Rightarrow> json option \<Rightarrow> json option \<Rightarrow> create_error + (user \<times> db)" where
  "create L d oid now n e p =
     (case (castField n, castField e, castField p) of
        (Some n0, Some e', Some p') \<Rightarrow>
          (let n' = trim n0 in
           if n' = [] \<or> 50 < length n' then Inl (SchemaError ''name'')
           else if e' = [] \<or> \<not> rx_test email_pattern e' then Inl (SchemaError ''email'')
           else if p' = [] \<or> length p' < 6 then Inl (SchemaError ''password'')
           else if e' \<in> set (map email d) then Inl DuplicateKey
           else let u = \<lparr>uid = oid, name = n', email = e', password = bcrypt_hash L p', role = RoleUser,
                           skills = [], experience = Some (Exact 0), education = [],
                           createdAt = now, updatedAt = now\<rparr>
                in Inr (u, d @ [u]))
      | _ \<Rightarrow> Inl (SchemaError ''required''))"

text \<open>
  Modelled from the spec: the \<^verbatim>\<open>register\<close> controller (controllers/auth.ts is
  missing). It fails with the validation errors when the validator recorded any, with
  the duplicate-email error when a record with the email already exists, and
  otherwise creates the record and returns a token for it. \<open>oid\<close> is the identifier
  assigned to the new record and \<open>now\<close> the time of the request. A failure of the
  store, which an email that is no string and a document that the schema refuses
  are, is a server error.
\<close>

definition register :: "'a libs_scheme \<Rightarrow> db \<Rightarrow> objectid \<Rightarrow> nat \<Rightarrow> validation_error list \<Rightarrow> register_body \<Rightarrow> response \<times> db" where
  "register L d oid now errors b =
     (if errors \<noteq> [] then (validation_failed errors, d)
      else case r_email b of
        Some (JStr e) \<Rightarrow>
          if e \<in> set (map email d) then (duplicate_email, d)
          else (case create L d oid now (r_name b) (r_email b) (r_password b) of
                  Inl DuplicateKey \<Rightarrow> (duplicate_email, d)
                | Inl (SchemaError x) \<Rightarrow> (server_error, d)
                | Inr (u, d') \<Rightarrow> (token_response 201 (jwt_sign L (uid u)), d'))
      | _ \<Rightarrow> (server_error, d))"

definition post_register :: "'a libs_scheme \<Rightarrow> db \<Rightarrow> objectid \<Rightarrow> nat \<Rightarrow> register_body \<Rightarrow> response \<times> db" where
  "post_register L d oid now b =
     (case registerValidator L b of (errors, b') \<Rightarrow> register L d oid now errors b')"

text \<open>
  Modelled from the spec: the \<^verbatim>\<open>login\<close> controller (controllers/auth.ts is
  missing). It looks the record up by email and compares the password with the stored
  hash; both failures give the same response, success gives a token, and the store is
  never written. \<open>e\<close> and \<open>p\<close> are the email and the password as the controller
  receives them.
\<close>

definition login :: "'a libs_scheme \<Rightarrow> db \<Rightarrow> string \<Rightarrow> string \<Rightarrow> response \<times> db" where
  "login L d e p =
     (case find (\<lambda>u. email u = e) d of
        None \<Rightarrow> (invalid_credentials, d)
      | Some u \<Rightarrow>
          if bcrypt_compare L p (password u) then (token_response 200 (jwt_sign L (uid u)), d)
          else (invalid_credentials, d))"

text \<open>
  Modelled from the spec: the \<^verbatim>\<open>getMe\<close> controller (controllers/auth.ts is
  missing). It returns the current user's record as a query returns it.
\<close>

definition getMe :: "db \<Rightarrow> doc option \<Rightarrow> response" where
  "getMe d req_user =
     (case req_user of
        None \<Rightarrow> server_error
      | Some ru \<Rightarrow>
          (case findById d (doc_id ru) of
             None \<Rightarrow> server_error
           | Some u \<Rightarrow> success_data u))"

definition get_me :: "'a libs_scheme \<Rightarrow> db \<Rightarrow> string option \<Rightarrow> response" where
  "get_me L d authorization =
     (case protect L d authorization of
        Respond r \<Rightarrow> r
      | Next req_user \<Rightarrow> getMe d req_user)"

section \<open>The external interface\<close>

text \<open>
  The five operations, each with what the request carries: register with the identifier
  the new record would get and the time, login with email and password, and the three
  guarded routes with the \<^verbatim>\<open>Authorization\<close> header.
\<close>

datatype request =
    PostRegister objectid nat register_body
  | PostLogin string string
  | GetMe "string option"
  | GetProfile "string option"
  | PutProfile "string option" profile_body

fun handle :: "'a libs_scheme \<Rightarrow> db \<Rightarrow> request \<Rightarrow> response \<times> db" where
  "handle L d (PostRegister oid now b) = post_register L d oid now b"
| "handle L d (PostLogin e p) = login L d e p"
| "handle L d (GetMe a) = (get_me L d a, d)"
| "handle L d (GetProfile a) = (get_profile L d a, d)"
| "handle L d (PutProfile a b) = put_profile L d a b"

text \<open>The state after a sequence of requests.\<close>

fun run :: "'a libs_scheme \<Rightarrow> db \<Rightarrow> request list \<Rightarrow> db" where
  "run L d [] = d"
| "run L d (r # rs) = run L (snd (handle L d r)) rs"

section \<open>Reading requests, responses and stores\<close>

text \<open>A value has a member named \<open>k\<close>, at any depth.\<close>

fun has_key :: "string \<Rightarrow> jsvalue \<Rightarrow> bool" where
  "has_key k (VObj kvs) = (k \<in> set (map fst kvs) \<or> list_ex (has_key k) (map snd kvs))"
| "has_key k (VArr xs) = list_ex (has_key k) xs"
| "has_key k v = False"

text \<open>The store with every password hash blanked: what two stores that differ in
  password hashes only have in common.\<close>

definition hide_passwords :: "db \<Rightarrow> db" where
  "hide_passwords d = map (\<lambda>u. u\<lparr>password := []\<rparr>) d"

text \<open>A field of a body is an array.\<close>

fun is_array :: "json option \<Rightarrow> bool" where
  "is_array (Some (JArr xs)) = True"
| "is_array v = False"

section \<open>Example data\<close>

text \<open>The text of an ObjectId, 24 hexadecimal digits, and the ObjectId of such a
  text.\<close>

definition hex_char :: "nat \<Rightarrow> char" where
  "hex_char d = (if d < 10 then char_of (48 + d) else char_of (87 + d))"

definition toHexString :: "objectid \<Rightarrow> string" where
  "toHexString w = map (\<lambda>k. hex_char (unat (take_bit 4 (drop_bit (4 * k) w)))) (rev [0..<24])"

definition hex_value :: "char \<Rightarrow> nat option" where
  "hex_value c =
     (let n = of_char c :: nat in
      if 48 \<le> n \<and> n \<le> 57 then Some (n - 48)
      else if 97 \<le> n \<and> n \<le> 102 then Some (n - 87)
      else if 65 \<le> n \<and> n \<le> 70 then Some (n - 55)
      else None)"

fun hex_word :: "objectid \<Rightarrow> string \<Rightarrow> objectid option" where
  "hex_word w [] = Some w"
| "hex_word w (c # cs) = (case hex_value c of None \<Rightarrow> None | Some d \<Rightarrow> hex_word (16 * w + of_nat d) cs)"

definition objectid_of_hex :: "string \<Rightarrow> objectid option" where
  "objectid_of_hex s = (if length s = 24 then hex_word 0 s else None)"

definition ann_id :: objectid where
  "ann_id = 0x507f1f77bcf86cd799439011"

definition bob_id :: objectid where
  "bob_id = 0x507f191e810c19729de860ea"

definition eve_id :: objectid where
  "eve_id = 0x65a1b2c3d4e5f60718293a4b"

definition ann :: user where
  "ann = \<lparr>uid = ann_id, name = ''Ann'', email = ''ann@x.com'', password = ''$2a$hash'', role = RoleUser,
     skills = [Some ''Go''], experience = Some (Exact 3), education = ''BSc'', createdAt = 100, updatedAt = 100\<rparr>"

definition ann_doc :: doc where
  "ann_doc = applySelect (toObject ann)"

text \<open>Library functions for the examples: the token of a user is \<open>tok-\<close> followed by the
  text of the id, and a string is cast to an ObjectId when it is 24 hexadecimal
  digits.\<close>

definition test_libs :: libs where
  "test_libs = \<lparr>isEmail = (\<lambda>e. CHR ''@'' \<in> set e),
     normalizeEmail = (\<lambda>e. e),
     bcrypt_hash = (\<lambda>p. ''$2a$'' @ p),
     bcrypt_compare = (\<lambda>p h. h = ''$2a$'' @ p),
     jwt_sign = (\<lambda>i. ''tok-'' @ toHexString i),
     jwt_verify = (\<lambda>t. if take 4 t = ''tok-'' then Some (drop 4 t) else None),
     castObjectId = objectid_of_hex\<rparr>"

definition falsy_patch :: profile_body where
  "falsy_patch = \<lparr>b_name = Some (JStr []), b_skills = Some (JArr []), b_experience = Some (JNum 0), b_education = Some (JStr [])\<rparr>"

definition nan_patch :: profile_body where
  "nan_patch = \<lparr>b_name = None, b_skills = None, b_experience = Some (JStr ''not-a-number''), b_education = None\<rparr>"

definition experience5_patch :: profile_body where
  "experience5_patch = \<lparr>b_name = None, b_skills = None, b_experience = Some (JNum 5), b_education = None\<rparr>"

definition name51 :: string where
  "name51 = replicate 50 CHR ''a'' @ '' ''"

definition negative_patch :: profile_body where
  "negative_patch = \<lparr>b_name = None, b_skills = None, b_experience = Some (JNum (- 5)), b_education = None\<rparr>"

definition mixed_skills_patch :: profile_body where
  "mixed_skills_patch = \<lparr>b_name = None, b_skills = Some (JArr [JStr ''Go'', JNum 1]), b_experience = None, b_education = None\<rparr>"

definition bob_body :: register_body where
  "bob_body = \<lparr>r_name = Some (JStr ''Bob''), r_email = Some (JStr ''bob@x.com''), r_password = Some (JStr ''secret1'')\<rparr>"

definition bob_again :: register_body where
  "bob_again = \<lparr>r_name = Some (JStr ''Robert''), r_email = Some (JStr ''bob@x.com''), r_password = Some (JStr ''hunter22'')\<rparr>"



section \<open>Properties of the update handler\<close>

lemma find_updateFirst:
  "(\<And>u. uid (f u) = uid u) \<Longrightarrow> find (\<lambda>u. Some (uid u) = i) (updateFirst i f d) = map_option f (find (\<lambda>u. Some (uid u) = i) d)"
  by (induction d) auto

lemma map_updateFirst:
  "(\<And>u. g (f u) = g u) \<Longrightarrow> map g (updateFirst i f d) = map g d"
  by (induction d) auto

lemma uid_applySet [simp]: "uid (applySet c u) = uid u"
  by (simp add: applySet_def)

lemma castUpdate_Inr:
  assumes "castUpdate f = Inr c"
  shows "castPath castName (b_name f) = Some (c_name c)"
    and "castPath castStringArray (b_skills f) = Some (c_skills c)"
    and "castPath castNumber (b_experience f) = Some (c_experience c)"
    and "castPath castString (b_education f) = Some (c_education c)"
  using assms
  by (auto simp: castUpdate_def split: option.splits)

lemma updateUserProfile_cases:
  "snd (updateUserProfile d r b) = d \<or>
   (\<exists>c ru. r = Some ru \<and> castUpdate (buildUpdateFields b) = Inr c \<and> runValidators c = None
      \<and> snd (updateUserProfile d r b) = updateFirst (doc_id ru) (applySet c) d)"
  by (auto simp: updateUserProfile_def findByIdAndUpdate_def Let_def split: option.splits sum.splits prod.splits)

lemma updateUserProfile_200:
  assumes "status (fst (updateUserProfile d r b)) = 200"
  shows "\<exists>c ru u. r = Some ru \<and> castUpdate (buildUpdateFields b) = Inr c \<and> runValidators c = None
      \<and> find (\<lambda>u. Some (uid u) = doc_id ru) d = Some u
      \<and> updateUserProfile d r b = (success_data (applySelect (toObject (applySet c u))), updateFirst (doc_id ru) (applySet c) d)"
  using assms
  by (auto simp: updateUserProfile_def findByIdAndUpdate_def Let_def findById_def find_updateFirst
      server_error_def user_not_found_def success_data_def split: option.splits sum.splits prod.splits)

lemma buildUpdateFields_simps [simp]:
  "b_experience (buildUpdateFields b) = b_experience b"
  "b_name b = Some (JStr []) \<Longrightarrow> b_name (buildUpdateFields b) = None"
  "b_education b = Some (JStr []) \<Longrightarrow> b_education (buildUpdateFields b) = None"
  "b_skills b = Some (JArr xs) \<Longrightarrow> b_skills (buildUpdateFields b) = Some (JArr xs)"
  by (simp_all add: buildUpdateFields_def)

lemma name_kept:
  assumes "b_name b = Some (JStr [])"
  shows "map name (snd (updateUserProfile d r b)) = map name d"
proof -
  consider "snd (updateUserProfile d r b) = d"
    | c ru where "castUpdate (buildUpdateFields b) = Inr c"
        "snd (updateUserProfile d r b) = updateFirst (doc_id ru) (applySet c) d"
    using updateUserProfile_cases [of d r b] by blast
  then show ?thesis
  proof cases
    case 1
    then show ?thesis by simp
  next
    case 2
    from castUpdate_Inr(1) [OF 2(1)] assms have "c_name c = None" by simp
    then have "\<And>u. name (applySet c u) = name u" by (simp add: applySet_def)
    then show ?thesis using 2(2) by (simp add: map_updateFirst)
  qed
qed

lemma education_kept:
  assumes "b_education b = Some (JStr [])"
  shows "map education (snd (updateUserProfile d r b)) = map education d"
proof -
  consider "snd (updateUserProfile d r b) = d"
    | c ru where "castUpdate (buildUpdateFields b) = Inr c"
        "snd (updateUserProfile d r b) = updateFirst (doc_id ru) (applySet c) d"
    using updateUserProfile_cases [of d r b] by blast
  then show ?thesis
  proof cases
    case 1
    then show ?thesis by simp
  next
    case 2
    from castUpdate_Inr(4) [OF 2(1)] assms have "c_education c = None" by simp
    then have "\<And>u. education (applySet c u) = education u" by (simp add: applySet_def)
    then show ?thesis using 2(2) by (simp add: map_updateFirst)
  qed
qed

lemma experience_set:
  assumes "b_experience b = Some (JNum n)" and "status (fst (updateUserProfile d (Some ru) b)) = 200"
  shows "map_option experience (find (\<lambda>u. Some (uid u) = doc_id ru) (snd (updateUserProfile d (Some ru) b))) = Some (Some (Exact n))"
proof -
  from updateUserProfile_200 [OF assms(2)] obtain c u where
    c: "castUpdate (buildUpdateFields b) = Inr c" and
    u: "find (\<lambda>u. Some (uid u) = doc_id ru) d = Some u" and
    r: "updateUserProfile d (Some ru) b = (success_data (applySelect (toObject (applySet c u))), updateFirst (doc_id ru) (applySet c) d)"
    by auto
  from castUpdate_Inr(3) [OF c] assms(1) have "c_experience c = Some (Some (Exact n))" by simp
  then have "experience (applySet c u) = Some (Exact n)" by (simp add: applySet_def)
  then show ?thesis using r u by (simp add: find_updateFirst)
qed

lemma skills_set:
  assumes "b_skills b = Some (JArr [])" and "status (fst (updateUserProfile d (Some ru) b)) = 200"
  shows "map_option skills (find (\<lambda>u. Some (uid u) = doc_id ru) (snd (updateUserProfile d (Some ru) b))) = Some []"
proof -
  from updateUserProfile_200 [OF assms(2)] obtain c u where
    c: "castUpdate (buildUpdateFields b) = Inr c" and
    u: "find (\<lambda>u. Some (uid u) = doc_id ru) d = Some u" and
    r: "updateUserProfile d (Some ru) b = (success_data (applySelect (toObject (applySet c u))), updateFirst (doc_id ru) (applySet c) d)"
    by auto
  from castUpdate_Inr(2) [OF c] assms(1) have "c_skills c = Some []" by simp
  then have "skills (applySet c u) = []" by (simp add: applySet_def)
  then show ?thesis using r u by (simp add: find_updateFirst)
qed

lemma only_experience_200:
  assumes "find (\<lambda>u. Some (uid u) = doc_id ru) d = Some u"
  shows "updateUserProfile d (Some ru) \<lparr>b_name = None, b_skills = None, b_experience = Some (JNum n), b_education = None\<rparr>
     = (success_data (applySelect (toObject (u\<lparr>experience := Some (Exact n)\<rparr>))), updateFirst (doc_id ru) (\<lambda>u. u\<lparr>experience := Some (Exact n)\<rparr>) d)"
proof -
  have "applySet \<lparr>c_name = None, c_skills = None, c_experience = Some (Some (Exact n)), c_education = None\<rparr> = (\<lambda>u. u\<lparr>experience := Some (Exact n)\<rparr>)"
    by (rule ext) (simp add: applySet_def)
  then show ?thesis using assms
  by (simp add: updateUserProfile_def buildUpdateFields_def findByIdAndUpdate_def castUpdate_def
      runValidators_def findById_def find_updateFirst)
qed

lemma only_skills_200:
  assumes "find (\<lambda>u. Some (uid u) = doc_id ru) d = Some u"
  shows "updateUserProfile d (Some ru) \<lparr>b_name = None, b_skills = Some (JArr []), b_experience = None, b_education = None\<rparr>
     = (success_data (applySelect (toObject (u\<lparr>skills := []\<rparr>))), updateFirst (doc_id ru) (\<lambda>u. u\<lparr>skills := []\<rparr>) d)"
proof -
  have "applySet \<lparr>c_name = None, c_skills = Some [], c_experience = None, c_education = None\<rparr> = (\<lambda>u. u\<lparr>skills := []\<rparr>)"
    by (rule ext) (simp add: applySet_def)
  then show ?thesis using assms
  by (simp add: updateUserProfile_def buildUpdateFields_def findByIdAndUpdate_def castUpdate_def
      runValidators_def findById_def find_updateFirst)
qed


text \<open>
  C10: the update handler treats a present but empty \<open>name\<close> or \<open>education\<close> as absent:
  for every patch whose \<open>name\<close> (or \<open>education\<close>) is the empty string, that field of
  every stored record is what it was. \<open>experience\<close> is tested against
  \<^verbatim>\<open>undefined\<close>: a patch with \<open>experience = 0\<close> that is answered 200 has stored 0,
  and the patch that is exactly \<open>{experience: 0}\<close> is answered 200 for an existing user.
  An empty \<open>skills\<close> array is truthy: it clears the stored skills.
\<close>

theorem updateUserProfile_falsy_fields:
  "(b_name b = Some (JStr []) \<longrightarrow> map name (snd (updateUserProfile d r b)) = map name d) \<and>
   (b_education b = Some (JStr []) \<longrightarrow> map education (snd (updateUserProfile d r b)) = map education d) \<and>
   (b_experience b = Some (JNum 0) \<and> status (fst (updateUserProfile d (Some ru) b)) = 200 \<longrightarrow>
      map_option experience (find (\<lambda>u. Some (uid u) = doc_id ru) (snd (updateUserProfile d (Some ru) b))) = Some (Some (Exact 0))) \<and>
   (b_skills b = Some (JArr []) \<and> status (fst (updateUserProfile d (Some ru) b)) = 200 \<longrightarrow>
      map_option skills (find (\<lambda>u. Some (uid u) = doc_id ru) (snd (updateUserProfile d (Some ru) b))) = Some []) \<and>
   (find (\<lambda>u. Some (uid u) = doc_id ru) d = Some u \<longrightarrow>
      updateUserProfile d (Some ru) \<lparr>b_name = None, b_skills = None, b_experience = Some (JNum 0), b_education = None\<rparr>
        = (success_data (applySelect (toObject (u\<lparr>experience := Some (Exact 0)\<rparr>))),
           updateFirst (doc_id ru) (\<lambda>u. u\<lparr>experience := Some (Exact 0)\<rparr>) d) \<and>
      updateUserProfile d (Some ru) \<lparr>b_name = None, b_skills = Some (JArr []), b_experience = None, b_education = None\<rparr>
        = (success_data (applySelect (toObject (u\<lparr>skills := []\<rparr>))),
           updateFirst (doc_id ru) (\<lambda>u. u\<lparr>skills := []\<rparr>) d))"
  using name_kept [of b d r] education_kept [of b d r] experience_set [of b 0 d ru] skills_set [of b d ru]
    only_experience_200 [of ru d u 0] only_skills_200 [of ru d u]
  by blast

theorem updateUserProfile_falsy_fields_witness:
  "map name (snd (updateUserProfile [ann] (Some ann_doc) falsy_patch)) = [''Ann''] \<and>
   map education (snd (updateUserProfile [ann] (Some ann_doc) falsy_patch)) = [''BSc''] \<and>
   status (fst (updateUserProfile [ann] (Some ann_doc) falsy_patch)) = 200 \<and>
   map_option experience (find (\<lambda>u. Some (uid u) = doc_id ann_doc) (snd (updateUserProfile [ann] (Some ann_doc) falsy_patch))) = Some (Some (Exact 0)) \<and>
   map_option skills (find (\<lambda>u. Some (uid u) = doc_id ann_doc) (snd (updateUserProfile [ann] (Some ann_doc) falsy_patch))) = Some [] \<and>
   snd (updateUserProfile [ann] (Some ann_doc) \<lparr>b_name = None, b_skills = None, b_experience = Some (JNum 0), b_education = None\<rparr>)
     = [ann\<lparr>experience := Some (Exact 0)\<rparr>]"
proof -
  have h1: "b_name falsy_patch = Some (JStr [])" "b_education falsy_patch = Some (JStr [])"
    "b_experience falsy_patch = Some (JNum 0)" "b_skills falsy_patch = Some (JArr [])"
    by (simp_all add: falsy_patch_def)
  have h2: "status (fst (updateUserProfile [ann] (Some ann_doc) falsy_patch)) = 200"
    by code_simp
  have h3: "find (\<lambda>u. Some (uid u) = doc_id ann_doc) [ann] = Some ann"
    by code_simp
  have h4: "map name [ann] = [''Ann'']" "map education [ann] = [''BSc'']"
    by (simp_all add: ann_def)
  have h5: "updateFirst (doc_id ann_doc) (\<lambda>u. u\<lparr>experience := Some (Exact 0)\<rparr>) [ann] = [ann\<lparr>experience := Some (Exact 0)\<rparr>]"
    using h3 by (simp split: if_splits)
  show ?thesis
    using updateUserProfile_falsy_fields [of falsy_patch "[ann]" "Some ann_doc" ann_doc ann] h1 h2 h3 h4 h5
    by simp
qed

lemma updateUserProfile_status:
  "status (fst (updateUserProfile d r b)) \<in> {200, 404, 500}"
  by (auto simp: updateUserProfile_def Let_def server_error_def user_not_found_def success_data_def
      split: option.splits sum.splits prod.splits)

lemma updateUserProfile_timestamps:
  "map updatedAt (snd (updateUserProfile d r b)) = map updatedAt d \<and>
   map createdAt (snd (updateUserProfile d r b)) = map createdAt d"
proof -
  have "\<And>c u. updatedAt (applySet c u) = updatedAt u" "\<And>c u. createdAt (applySet c u) = createdAt u"
    by (simp_all add: applySet_def)
  then show ?thesis
    using updateUserProfile_cases [of d r b] by (auto simp: map_updateFirst)
qed

section \<open>Properties of the access guard\<close>

lemma split_on_absent: "c \<notin> set t \<Longrightarrow> split_on c t = [t]"
  by (induction t) auto

lemma protect_verified:
  assumes "jwt_verify L t = Some s" and "castObjectId L s = Some i" and "t \<noteq> []" and "CHR '' '' \<notin> set t"
  shows "protect L d (Some (''Bearer '' @ t)) = Next (findById d (Some i))"
  using assms by (simp add: protect_def at_index_def split_on_absent)

text \<open>A token that verifies and whose id is not the text of an ObjectId: the cast
  throws inside the guard, which answers 401.\<close>

lemma protect_cast_error:
  assumes "jwt_verify L t = Some s" and "castObjectId L s = None" and "t \<noteq> []" and "CHR '' '' \<notin> set t"
  shows "protect L d (Some (''Bearer '' @ t)) = Respond not_authorized"
  using assms by (simp add: protect_def at_index_def split_on_absent)

lemma protect_not_an_id:
  "protect test_libs [ann] (Some ''Bearer tok-u1'') = Respond not_authorized"
  by code_simp

lemma protect_cases:
  "protect L d a = Respond not_authorized \<or> (\<exists>i. protect L d a = Next (findById d (Some i)))"
  by (auto simp: protect_def Let_def split: option.splits)

text \<open>The guard lets a request through only with a token that verifies, and every
  refusal is the one 401 response.\<close>

lemma protect_passes_only_verified:
  assumes "protect L d a = Next u"
  shows "\<exists>h t s i. a = Some h \<and> take 6 h = ''Bearer'' \<and> at_index (split_on CHR '' '' h) 1 = Some t
           \<and> t \<noteq> [] \<and> jwt_verify L t = Some s \<and> castObjectId L s = Some i \<and> u = findById d (Some i)"
  using assms by (auto simp: protect_def Let_def split: option.splits if_splits)

lemma protect_uniform_401: "protect L d a = Respond r \<Longrightarrow> r = not_authorized"
  using protect_cases [of L d a] by auto

text \<open>
  C1: a request with a well-formed token that verifies, whose user no longer exists. The
  claim has the guard answer 401 without calling the handler. The guard stores the
  \<^verbatim>\<open>null\<close> that \<^verbatim>\<open>findById\<close> returns in \<^verbatim>\<open>req.user\<close> and calls
  \<^verbatim>\<open>next()\<close>; the handler then fails on \<^verbatim>\<open>req.user.id\<close> and answers 500.
\<close>

theorem protect_deleted_user:
  "protect test_libs [] (Some ''Bearer tok-507f1f77bcf86cd799439011'') = Next None \<and>
   get_profile test_libs [] (Some ''Bearer tok-507f1f77bcf86cd799439011'') = server_error \<and>
   put_profile test_libs [] (Some ''Bearer tok-507f1f77bcf86cd799439011'') experience5_patch = (server_error, [])"
  by code_simp

section \<open>Properties of the profile routes\<close>

text \<open>
  C2: a profile update whose \<open>experience\<close> is the string \<open>not-a-number\<close>. The claim has
  it fail with 400 before the store is touched. The validator records the error, but
  the handler never reads it: no request is ever answered 400 by the handler, and this
  one is answered 500 when the cast to Number throws. The stored record is unchanged.
\<close>

theorem put_profile_non_numeric_experience:
  "status (fst (updateUserProfile d r b)) \<noteq> 400 \<and>
   fst (profileUpdateValidator nan_patch) = [\<lparr>param = ''experience'', msg = ''Experience must be a number''\<rparr>] \<and>
   put_profile test_libs [ann] (Some ''Bearer tok-507f1f77bcf86cd799439011'') nan_patch = (server_error, [ann]) \<and>
   status server_error = 500"
proof -
  have "status (fst (updateUserProfile d r b)) \<noteq> 400"
    using updateUserProfile_status [of d r b] by auto
  moreover have "fst (profileUpdateValidator nan_patch) = [\<lparr>param = ''experience'', msg = ''Experience must be a number''\<rparr>]"
    by code_simp
  moreover have "put_profile test_libs [ann] (Some ''Bearer tok-507f1f77bcf86cd799439011'') nan_patch = (server_error, [ann])"
    by code_simp
  moreover have "status server_error = 500"
    by (simp add: server_error_def)
  ultimately show ?thesis by blast
qed

text \<open>
  C3: a profile update that is exactly \<open>{experience: 5}\<close>. The record's experience
  becomes 5 and the other fields keep their values, \<open>updatedAt\<close> included: the claim
  has \<open>updatedAt\<close> strictly later, but the update is a query, the
  \<^verbatim>\<open>pre('save')\<close> hook that refreshes \<open>updatedAt\<close> does not run, and no update of
  any shape changes a stored \<open>updatedAt\<close>.
\<close>

theorem put_profile_updatedAt_unchanged:
  "map updatedAt (snd (updateUserProfile d r b)) = map updatedAt d \<and>
   put_profile test_libs [ann] (Some ''Bearer tok-507f1f77bcf86cd799439011'') experience5_patch
     = (success_data (applySelect (toObject (ann\<lparr>experience := Some (Exact 5)\<rparr>))), [ann\<lparr>experience := Some (Exact 5)\<rparr>]) \<and>
   updatedAt (ann\<lparr>experience := Some (Exact 5)\<rparr>) = updatedAt ann"
proof -
  have "put_profile test_libs [ann] (Some ''Bearer tok-507f1f77bcf86cd799439011'') experience5_patch
     = (success_data (applySelect (toObject (ann\<lparr>experience := Some (Exact 5)\<rparr>))), [ann\<lparr>experience := Some (Exact 5)\<rparr>])"
    by code_simp
  then show ?thesis using updateUserProfile_timestamps [of d r b] by simp
qed

text \<open>A string that \<^verbatim>\<open>Number\<close> reads is cast and stored, whatever the form of the
  numeral; the other strings are the ones that are answered 500.\<close>

lemma put_profile_numerals:
  "snd (put_profile test_libs [ann] (Some ''Bearer tok-507f1f77bcf86cd799439011'')
      \<lparr>b_name = None, b_skills = None, b_experience = Some (JStr '' 12 ''), b_education = None\<rparr>)
     = [ann\<lparr>experience := Some (Exact 12)\<rparr>]"
  "snd (put_profile test_libs [ann] (Some ''Bearer tok-507f1f77bcf86cd799439011'')
      \<lparr>b_name = None, b_skills = None, b_experience = Some (JStr ''1.5''), b_education = None\<rparr>)
     = [ann\<lparr>experience := Some (NumberOf ''1.5'')\<rparr>]"
  "snd (put_profile test_libs [ann] (Some ''Bearer tok-507f1f77bcf86cd799439011'')
      \<lparr>b_name = None, b_skills = None, b_experience = Some (JStr ''1e3''), b_education = None\<rparr>)
     = [ann\<lparr>experience := Some (NumberOf ''1e3'')\<rparr>]"
  "snd (put_profile test_libs [ann] (Some ''Bearer tok-507f1f77bcf86cd799439011'')
      \<lparr>b_name = None, b_skills = None, b_experience = Some (JStr ''0x10''), b_education = None\<rparr>)
     = [ann\<lparr>experience := Some (NumberOf ''0x10'')\<rparr>]"
  "status (fst (put_profile test_libs [ann] (Some ''Bearer tok-507f1f77bcf86cd799439011'')
      \<lparr>b_name = None, b_skills = None, b_experience = Some (JStr ''1e3''), b_education = None\<rparr>)) = 200"
  "status (fst (put_profile test_libs [ann] (Some ''Bearer tok-507f1f77bcf86cd799439011'')
      \<lparr>b_name = None, b_skills = None, b_experience = Some (JStr ''12px''), b_education = None\<rparr>)) = 500"
  by code_simp+

section \<open>Properties of the validators\<close>

lemma of_char_digit_char: "d < 10 \<Longrightarrow> of_char (digit_char d) = (48 + d :: nat)"
  by (simp add: digit_char_def)

lemma is_digit_digit_char: "d < 10 \<Longrightarrow> is_digit (digit_char d)"
  by (simp add: is_digit_def of_char_digit_char)

lemma int_digits_digits1: "digits1 (int_digits i)"
proof (induction i rule: int_digits.induct)
  case (1 i)
  show ?case
  proof (cases "i < 10")
    case True
    then show ?thesis by (subst int_digits.simps) (simp add: digits1_def is_digit_digit_char)
  next
    case False
    with 1 have "digits1 (int_digits (i div 10))" by simp
    moreover have "is_digit (digit_char (nat (i mod 10)))" by (simp add: is_digit_digit_char)
    ultimately show ?thesis using False by (subst int_digits.simps) (simp add: digits1_def)
  qed
qed

lemma digits1_not_sign: "digits1 s \<Longrightarrow> \<exists>c cs. s = c # cs \<and> c \<noteq> CHR ''+'' \<and> c \<noteq> CHR ''-''"
  by (cases s) (auto simp: digits1_def is_digit_def)

lemma isNumeric_js_String: "isNumeric (js_String n)"
proof (cases "sint n < 0")
  case True
  then show ?thesis by (simp add: isNumeric_def strip_sign_def js_String_def int_digits_digits1)
next
  case False
  from digits1_not_sign [OF int_digits_digits1 [of "sint n"]] obtain c cs
    where "int_digits (sint n) = c # cs" "c \<noteq> CHR ''+''" "c \<noteq> CHR ''-''" by blast
  with False int_digits_digits1 [of "sint n"] show ?thesis
    by (simp add: isNumeric_def strip_sign_def js_String_def)
qed

lemma trim_Nil [simp]: "trim [] = []"
  by (simp add: trim_def ltrim_def rtrim_def)

lemma is_array_iff: "is_array v \<longleftrightarrow> (\<exists>xs. v = Some (JArr xs))"
  by (cases v rule: is_array.cases) simp_all

lemma validator_toString_JStr [simp]: "validator_toString (Some (JStr s)) = s"
  by (simp add: validator_toString_def)

lemma validator_toString_JNum [simp]: "validator_toString (Some (JNum n)) = js_String n"
  by (simp add: validator_toString_def)

lemma validator_toString_None [simp]: "validator_toString None = []"
  by (simp add: validator_toString_def)

lemma standard_validator_scalar:
  "\<not> is_array v \<Longrightarrow> standard_validator ok p m v = (if ok (validator_toString v) then [] else [\<lparr>param = p, msg = m\<rparr>])"
  by (auto simp: is_array_iff standard_validator_def each_value_def split: option.splits json.splits)

lemma standard_validator_JStr [simp]:
  "standard_validator ok p m (Some (JStr s)) = (if ok s then [] else [\<lparr>param = p, msg = m\<rparr>])"
  by (simp add: standard_validator_scalar)

lemma standard_validator_JNum [simp]:
  "standard_validator ok p m (Some (JNum n)) = (if ok (js_String n) then [] else [\<lparr>param = p, msg = m\<rparr>])"
  by (simp add: standard_validator_scalar)

lemma sanitize_scalar:
  "\<not> is_array v \<Longrightarrow> sanitize f v = Some (JStr (f (validator_toString v)))"
  by (auto simp: is_array_iff sanitize_def split: option.splits json.splits)

lemma sanitize_JStr [simp]: "sanitize f (Some (JStr s)) = Some (JStr (f s))"
  by (simp add: sanitize_scalar)


lemma registerValidator_strings:
  "registerValidator L \<lparr>r_name = Some (JStr n), r_email = Some (JStr e), r_password = Some (JStr p)\<rparr> =
     ((if n \<noteq> [] then [] else [\<lparr>param = ''name'', msg = ''Name is required''\<rparr>]) @
      (if length (trim n) \<le> 50 then [] else [\<lparr>param = ''name'', msg = ''Name cannot be more than 50 characters''\<rparr>]) @
      (if isEmail L e then [] else [\<lparr>param = ''email'', msg = ''Please include a valid email''\<rparr>]) @
      (if 6 \<le> length p then [] else [\<lparr>param = ''password'', msg = ''Password must be at least 6 characters''\<rparr>]),
      \<lparr>r_name = Some (JStr (trim n)), r_email = Some (JStr (normalizeEmail L e)), r_password = Some (JStr p)\<rparr>)"
  by (simp add: registerValidator_def Let_def)


lemma validation_failed_neq [simp]:
  "duplicate_email \<noteq> validation_failed es" "server_error \<noteq> validation_failed es"
  "token_response st t \<noteq> validation_failed es"
  by (simp_all add: duplicate_email_def server_error_def token_response_def validation_failed_def)

lemma register_valid: "fst (register L d oid now [] b) \<noteq> validation_failed es"
  by (simp add: register_def split: option.splits json.splits sum.splits create_error.splits prod.splits)

lemma post_register_invalid:
  "fst (registerValidator L b) \<noteq> [] \<Longrightarrow> post_register L d oid now b = (validation_failed (fst (registerValidator L b)), d)"
  by (cases "registerValidator L b") (simp add: post_register_def register_def)

lemma post_register_valid:
  "fst (registerValidator L b) = [] \<Longrightarrow> fst (post_register L d oid now b) \<noteq> validation_failed es"
  by (cases "registerValidator L b") (simp add: post_register_def register_valid)

text \<open>The email pattern of the schema on some strings.\<close>

lemma email_pattern_examples:
  "rx_test email_pattern ''bob@x.com''"
  "rx_test email_pattern ''ann.lee-smith@mail.example.co.uk''"
  "\<not> rx_test email_pattern ''bob@x''"
  "\<not> rx_test email_pattern ''bob@x.comm''"
  "\<not> rx_test email_pattern ''bob..lee@x.com''"
  "\<not> rx_test email_pattern ''bob@x.com ''"
  "\<not> rx_test email_pattern []"
  by code_simp+

text \<open>A name of white space alone passes the validator: it is tested for emptiness
  before it is trimmed.\<close>

lemma registerValidator_blank_name:
  "fst (registerValidator test_libs \<lparr>r_name = Some (JStr ''   ''), r_email = Some (JStr ''bob@x.com''), r_password = Some (JStr ''secret1'')\<rparr>) = []"
  by code_simp

text \<open>A field that is an array is judged element by element: an empty array passes
  every check, and a field with an element that fails is rejected.\<close>

lemma registerValidator_arrays:
  "fst (registerValidator test_libs \<lparr>r_name = Some (JArr []), r_email = Some (JArr []), r_password = Some (JArr [])\<rparr>) = []"
  "fst (registerValidator test_libs \<lparr>r_name = Some (JStr ''Bob''), r_email = Some (JStr ''bob@x.com''),
          r_password = Some (JArr [JStr ''secret1'', JStr ''abc''])\<rparr>)
     = [\<lparr>param = ''password'', msg = ''Password must be at least 6 characters''\<rparr>]"
  by code_simp+





lemma errors_for_append [simp]: "errors_for p (xs @ ys) = errors_for p xs @ errors_for p ys"
  by (simp add: errors_for_def)

lemma errors_for_standard:
  "errors_for p (standard_validator ok q m v) = (if p = q then standard_validator ok q m v else [])"
  by (simp add: errors_for_def standard_validator_def filter_map o_def)

lemma errors_for_custom:
  "errors_for p (custom_validator ok q m v) = (if p = q then custom_validator ok q m v else [])"
  by (simp add: errors_for_def custom_validator_def)

lemma errors_for_Nil [simp]: "errors_for p [] = []"
  by (simp add: errors_for_def)

lemma experience_errors:
  "errors_for ''experience'' (fst (profileUpdateValidator b)) =
     (if b_experience b = None then []
      else standard_validator isNumeric ''experience'' ''Experience must be a number'' (b_experience b))"
  by (simp add: profileUpdateValidator_def Let_def errors_for_standard errors_for_custom)

lemma skills_errors:
  "errors_for ''skills'' (fst (profileUpdateValidator b)) =
     (if b_skills b = None then []
      else custom_validator (\<lambda>v. case v of Some (JArr xs) \<Rightarrow> True | _ \<Rightarrow> False)
             ''skills'' ''Skills must be an array'' (b_skills b))"
  by (simp add: profileUpdateValidator_def Let_def errors_for_standard errors_for_custom)

text \<open>
  C9, amended: the profile validator tests \<open>experience\<close> for being numeric and \<open>skills\<close>
  for being an array, and nothing more. An \<open>experience\<close> that is a number of the model,
  an integer from \<open>-2^53\<close> to \<open>2^53 - 1\<close>, raises no error, whatever its sign; one that
  is a string raises the error exactly when the string does not match
  \<^verbatim>\<open>[+-]?([0-9]*[.])?[0-9]+\<close>. A \<open>skills\<close> that is an array raises no error whatever
  its elements are; one that is a string raises the error. The update that is exactly
  \<open>{experience: n}\<close> is answered 200 for an existing user and stores \<open>n\<close>, negative
  or not.
\<close>

theorem profileUpdateValidator_experience_skills:
  "(b_experience b = Some (JNum n) \<longrightarrow>
      errors_for ''experience'' (fst (profileUpdateValidator b)) = []) \<and>
   (b_experience b = Some (JStr s) \<longrightarrow>
      errors_for ''experience'' (fst (profileUpdateValidator b)) =
        (if isNumeric s then [] else [\<lparr>param = ''experience'', msg = ''Experience must be a number''\<rparr>])) \<and>
   (b_skills b = Some (JArr xs) \<longrightarrow> errors_for ''skills'' (fst (profileUpdateValidator b)) = []) \<and>
   (b_skills b = Some (JStr s) \<longrightarrow>
      errors_for ''skills'' (fst (profileUpdateValidator b)) = [\<lparr>param = ''skills'', msg = ''Skills must be an array''\<rparr>]) \<and>
   (find (\<lambda>u. Some (uid u) = doc_id ru) d = Some u \<longrightarrow>
      updateUserProfile d (Some ru) \<lparr>b_name = None, b_skills = None, b_experience = Some (JNum n), b_education = None\<rparr>
        = (success_data (applySelect (toObject (u\<lparr>experience := Some (Exact n)\<rparr>))),
           updateFirst (doc_id ru) (\<lambda>u. u\<lparr>experience := Some (Exact n)\<rparr>) d))"
proof -
  have "b_experience b = Some (JNum n) \<Longrightarrow> errors_for ''experience'' (fst (profileUpdateValidator b)) = []"
    by (simp add: experience_errors isNumeric_js_String)
  moreover have "b_experience b = Some (JStr s) \<Longrightarrow>
      errors_for ''experience'' (fst (profileUpdateValidator b)) =
        (if isNumeric s then [] else [\<lparr>param = ''experience'', msg = ''Experience must be a number''\<rparr>])"
    by (simp add: experience_errors)
  moreover have "b_skills b = Some (JArr xs) \<Longrightarrow> errors_for ''skills'' (fst (profileUpdateValidator b)) = []"
    by (simp add: skills_errors custom_validator_def)
  moreover have "b_skills b = Some (JStr s) \<Longrightarrow>
      errors_for ''skills'' (fst (profileUpdateValidator b)) = [\<lparr>param = ''skills'', msg = ''Skills must be an array''\<rparr>]"
    by (simp add: skills_errors custom_validator_def)
  ultimately show ?thesis
    using only_experience_200 [of ru d u n] by blast
qed

theorem profileUpdateValidator_experience_skills_witness:
  "errors_for ''experience'' (fst (profileUpdateValidator negative_patch)) = [] \<and>
   errors_for ''experience'' (fst (profileUpdateValidator nan_patch)) = [\<lparr>param = ''experience'', msg = ''Experience must be a number''\<rparr>] \<and>
   errors_for ''skills'' (fst (profileUpdateValidator mixed_skills_patch)) = [] \<and>
   snd (updateUserProfile [ann] (Some ann_doc) \<lparr>b_name = None, b_skills = None, b_experience = Some (JNum (- 5)), b_education = None\<rparr>)
     = [ann\<lparr>experience := Some (Exact (- 5))\<rparr>]"
proof -
  have h1: "b_experience negative_patch = Some (JNum (- 5))"
    by (simp add: negative_patch_def)
  have h2: "b_experience nan_patch = Some (JStr ''not-a-number'')" "\<not> isNumeric ''not-a-number''"
    by (simp add: nan_patch_def, code_simp)
  have h3: "b_skills mixed_skills_patch = Some (JArr [JStr ''Go'', JNum 1])"
    by (simp add: mixed_skills_patch_def)
  have h4: "find (\<lambda>u. Some (uid u) = doc_id ann_doc) [ann] = Some ann"
    by code_simp
  have h5: "updateFirst (doc_id ann_doc) (\<lambda>u. u\<lparr>experience := Some (Exact (- 5))\<rparr>) [ann] = [ann\<lparr>experience := Some (Exact (- 5))\<rparr>]"
    using h4 by (simp split: if_splits)
  show ?thesis
    using profileUpdateValidator_experience_skills [where b = negative_patch and n = "- 5" and ru = ann_doc and d = "[ann]" and u = ann]
      profileUpdateValidator_experience_skills [where b = nan_patch and s = "''not-a-number''"]
      profileUpdateValidator_experience_skills [where b = mixed_skills_patch and xs = "[JStr ''Go'', JNum 1]"]
      h1 h2 h3 h4 h5
    by simp
qed

text \<open>
  C9 as stated fails: the patch \<open>{experience: -5}\<close> is answered 200 and \<open>-5\<close> is stored,
  and the patch \<open>{skills: ["Go", 1]}\<close> is answered 200 and stored with the number cast
  to a string.
\<close>

theorem put_profile_negative_experience_counterexample:
  "put_profile test_libs [ann] (Some ''Bearer tok-507f1f77bcf86cd799439011'') negative_patch
     = (success_data (applySelect (toObject (ann\<lparr>experience := Some (Exact (- 5))\<rparr>))), [ann\<lparr>experience := Some (Exact (- 5))\<rparr>]) \<and>
   status (fst (put_profile test_libs [ann] (Some ''Bearer tok-507f1f77bcf86cd799439011'') negative_patch)) = 200 \<and>
   put_profile test_libs [ann] (Some ''Bearer tok-507f1f77bcf86cd799439011'') mixed_skills_patch
     = (success_data (applySelect (toObject (ann\<lparr>skills := [Some ''Go'', Some ''1'']\<rparr>))), [ann\<lparr>skills := [Some ''Go'', Some ''1'']\<rparr>])"
  by code_simp

section \<open>Properties of the auth routes\<close>



lemma updateUserProfile_email:
  "map email (snd (updateUserProfile d r b)) = map email d"
proof -
  have "\<And>c u. email (applySet c u) = email u"
    by (simp add: applySet_def)
  then show ?thesis
    using updateUserProfile_cases [of d r b] by (auto simp: map_updateFirst)
qed

lemma put_profile_email: "map email (snd (put_profile L d a b)) = map email d"
  by (simp add: put_profile_def updateUserProfile_email split: guard.splits)

lemma create_email:
  "create L d oid now n e p = Inr (u, d') \<Longrightarrow>
     d' = d @ [u] \<and> castField e = Some (email u) \<and> uid u = oid \<and> email u \<notin> set (map email d)"
  by (auto simp: create_def Let_def split: option.splits if_splits)

lemma register_cases:
  "snd (register L d oid now es b) = d \<or>
   (\<exists>u. snd (register L d oid now es b) = d @ [u] \<and> email u \<notin> set (map email d))"
  by (auto simp: register_def split: option.splits json.splits sum.splits create_error.splits dest: create_email)

lemma post_register_cases:
  "snd (post_register L d oid now b) = d \<or>
   (\<exists>u. snd (post_register L d oid now b) = d @ [u] \<and> email u \<notin> set (map email d))"
proof (cases "registerValidator L b")
  case (Pair es b')
  then show ?thesis
    using register_cases [of L d oid now es b'] by (simp add: post_register_def)
qed

lemma handle_distinct:
  assumes "distinct (map email d)"
  shows "distinct (map email (snd (handle L d r)))"
proof (cases r)
  case (PostRegister oid now b)
  then show ?thesis using assms post_register_cases [of L d oid now b] by auto
next
  case (PostLogin e p)
  then show ?thesis using assms by (simp add: login_def split: option.splits)
next
  case (PutProfile a b)
  then show ?thesis using assms by (simp add: put_profile_email)
qed (use assms in simp_all)

lemma run_distinct:
  "distinct (map email d) \<Longrightarrow> distinct (map email (run L d rs))"
  by (induction rs arbitrary: d) (simp_all add: handle_distinct)

lemma register_created:
  assumes "status (fst (register L d oid now es b)) = 201" and "r_email b = Some (JStr e)"
  shows "e \<in> set (map email (snd (register L d oid now es b)))"
proof -
  from assms obtain u d' where c: "create L d oid now (r_name b) (r_email b) (r_password b) = Inr (u, d')"
    and s: "snd (register L d oid now es b) = d'"
    by (auto simp: register_def validation_failed_def duplicate_email_def server_error_def
        split: if_splits sum.splits create_error.splits)
  from create_email [OF c] assms(2) have "d' = d @ [u]" "email u = e"
    by (simp_all add: castField_def)
  with s show ?thesis by simp
qed

lemma post_register_created:
  assumes "status (fst (post_register L d oid now \<lparr>r_name = Some (JStr n), r_email = Some (JStr e), r_password = Some (JStr p)\<rparr>)) = 201"
  shows "normalizeEmail L e \<in> set (map email (snd (post_register L d oid now \<lparr>r_name = Some (JStr n), r_email = Some (JStr e), r_password = Some (JStr p)\<rparr>)))"
proof -
  let ?b = "\<lparr>r_name = Some (JStr n), r_email = Some (JStr e), r_password = Some (JStr p)\<rparr>"
  let ?b' = "\<lparr>r_name = Some (JStr (trim n)), r_email = Some (JStr (normalizeEmail L e)), r_password = Some (JStr p)\<rparr>"
  have "fst (registerValidator L ?b) = []"
    using assms post_register_invalid [of L ?b d oid now]
    by (cases "fst (registerValidator L ?b) = []") (simp_all add: validation_failed_def)
  moreover have "snd (registerValidator L ?b) = ?b'"
    unfolding registerValidator_strings by simp
  ultimately have "registerValidator L ?b = ([], ?b')"
    by (metis prod.collapse)
  then have "post_register L d oid now ?b = register L d oid now [] ?b'"
    by (simp add: post_register_def)
  then show ?thesis
    using assms register_created [of L d oid now "[]" ?b' "normalizeEmail L e"] by simp
qed

lemma post_register_duplicate:
  assumes "normalizeEmail L e \<in> set (map email d)"
    and "n \<noteq> []" and "length (trim n) \<le> 50" and "isEmail L e" and "6 \<le> length p"
  shows "post_register L d oid now \<lparr>r_name = Some (JStr n), r_email = Some (JStr e), r_password = Some (JStr p)\<rparr> = (duplicate_email, d)"
  using assms
  by (simp add: post_register_def registerValidator_strings register_def)


text \<open>
  C5: no two records share an email in any state the five operations reach from the
  empty store; and when a registration has succeeded, a second, otherwise valid
  registration with the same email fails with the duplicate-email error and leaves the
  store as it was.
\<close>

theorem email_unique:
  "distinct (map email (run L [] rs)) \<and>
   (status (fst (post_register L d oid now \<lparr>r_name = Some (JStr n), r_email = Some (JStr e), r_password = Some (JStr p)\<rparr>)) = 201
      \<and> n' \<noteq> [] \<and> length (trim n') \<le> 50 \<and> 6 \<le> length p' \<longrightarrow>
    post_register L (snd (post_register L d oid now \<lparr>r_name = Some (JStr n), r_email = Some (JStr e), r_password = Some (JStr p)\<rparr>))
        oid' now' \<lparr>r_name = Some (JStr n'), r_email = Some (JStr e), r_password = Some (JStr p')\<rparr>
      = (duplicate_email, snd (post_register L d oid now \<lparr>r_name = Some (JStr n), r_email = Some (JStr e), r_password = Some (JStr p)\<rparr>)))"
proof -
  let ?b = "\<lparr>r_name = Some (JStr n), r_email = Some (JStr e), r_password = Some (JStr p)\<rparr>"
  have inv: "distinct (map email (run L [] rs))"
    by (rule run_distinct) simp
  have second: "post_register L (snd (post_register L d oid now ?b))
        oid' now' \<lparr>r_name = Some (JStr n'), r_email = Some (JStr e), r_password = Some (JStr p')\<rparr>
      = (duplicate_email, snd (post_register L d oid now ?b))"
    if ok: "status (fst (post_register L d oid now ?b)) = 201"
      and n': "n' \<noteq> []" "length (trim n') \<le> 50" and p': "6 \<le> length p'"
  proof -
    have "fst (registerValidator L ?b) = []"
      using ok post_register_invalid [of L ?b d oid now]
      by (cases "fst (registerValidator L ?b) = []") (simp_all add: validation_failed_def)
    then have "isEmail L e"
      by (simp add: registerValidator_strings split: if_splits)
    with post_register_created [OF ok] n' p' show ?thesis
      by (intro post_register_duplicate) simp_all
  qed
  from inv second show ?thesis by blast
qed

theorem email_unique_witness:
  "distinct (map email (run test_libs [] [PostRegister ann_id 1 bob_body, PostRegister bob_id 2 bob_again,
       PutProfile (Some ''Bearer tok-507f1f77bcf86cd799439011'') falsy_patch])) \<and>
   status (fst (post_register test_libs [ann] bob_id 1 \<lparr>r_name = Some (JStr ''Bob''), r_email = Some (JStr ''bob@x.com''), r_password = Some (JStr ''secret1'')\<rparr>)) = 201 \<and>
   fst (post_register test_libs
          (snd (post_register test_libs [ann] bob_id 1 \<lparr>r_name = Some (JStr ''Bob''), r_email = Some (JStr ''bob@x.com''), r_password = Some (JStr ''secret1'')\<rparr>))
          eve_id 2 \<lparr>r_name = Some (JStr ''Robert''), r_email = Some (JStr ''bob@x.com''), r_password = Some (JStr ''hunter22'')\<rparr>)
     = duplicate_email"
proof -
  have ok: "status (fst (post_register test_libs [ann] bob_id 1 \<lparr>r_name = Some (JStr ''Bob''), r_email = Some (JStr ''bob@x.com''), r_password = Some (JStr ''secret1'')\<rparr>)) = 201"
    by code_simp
  have n': "''Robert'' \<noteq> []" "length (trim ''Robert'') \<le> 50" "6 \<le> length ''hunter22''"
    by code_simp+
  show ?thesis
    using email_unique [where L = test_libs and rs = "[PostRegister ann_id 1 bob_body, PostRegister bob_id 2 bob_again,
       PutProfile (Some ''Bearer tok-507f1f77bcf86cd799439011'') falsy_patch]" and d = "[ann]" and oid = bob_id and now = 1
       and n = "''Bob''" and e = "''bob@x.com''" and p = "''secret1''"
       and n' = "''Robert''" and p' = "''hunter22''" and oid' = eve_id and now' = 2] ok n'
    by simp
qed

text \<open>
  The register controller as the spec describes it, after the validator: the call fails
  with the validation error (400), leaving the store as it was, exactly when the
  validator recorded an error. The name of 50 letters and a trailing space is
  registered, with the trimmed name.
\<close>

lemma post_register_rejects:
  "(\<exists>es. es \<noteq> [] \<and> post_register L d oid now b = (validation_failed es, d)) \<longleftrightarrow> fst (registerValidator L b) \<noteq> []"
proof (cases "fst (registerValidator L b) = []")
  case True
  have "\<And>es. post_register L d oid now b \<noteq> (validation_failed es, d)"
    using post_register_valid [OF True, of d oid now] by (metis fst_conv)
  with True show ?thesis by blast
next
  case False
  with post_register_invalid [OF False, of d oid now] show ?thesis by blast
qed

lemma post_register_long_name:
  "status (fst (post_register test_libs [] bob_id 7 \<lparr>r_name = Some (JStr name51), r_email = Some (JStr ''bob@x.com''), r_password = Some (JStr ''secret1'')\<rparr>)) = 201"
  "map name (snd (post_register test_libs [] bob_id 7 \<lparr>r_name = Some (JStr name51), r_email = Some (JStr ''bob@x.com''), r_password = Some (JStr ''secret1'')\<rparr>)) = [replicate 50 CHR ''a'']"
  by code_simp+

text \<open>What the modelled controller does with a name of white space alone, which the
  validator lets through: the schema refuses the document.\<close>

lemma post_register_blank_name:
  "post_register test_libs [] bob_id 7 \<lparr>r_name = Some (JStr ''   ''), r_email = Some (JStr ''bob@x.com''), r_password = Some (JStr ''secret1'')\<rparr>
     = (server_error, [])"
  by code_simp

section \<open>What the responses of the profile routes carry\<close>

text \<open>
  The password path is declared \<^verbatim>\<open>select: false\<close>, and the profile routes answer
  with documents that queries returned. Their responses have no member named
  \<open>password\<close>, and they are the same for two stores that differ in password hashes
  only.
\<close>

lemma no_key_skills:
  "\<not> list_ex (has_key k) (map (\<lambda>x. case x of None \<Rightarrow> VNull | Some s \<Rightarrow> VStr s) xs)"
  by (induction xs) (auto split: option.splits)

lemma no_password_doc: "\<not> has_key ''password'' (VObj (applySelect (toObject u)))"
  by (simp add: applySelect_def toObject_def unselected_def no_key_skills split: option.splits)

lemma findById_Some: "findById d i = Some x \<Longrightarrow> \<exists>u. x = applySelect (toObject u)"
  by (auto simp: findById_def)

lemma no_password_fixed:
  "\<not> has_key ''password'' (body server_error)"
  "\<not> has_key ''password'' (body user_not_found)"
  "\<not> has_key ''password'' (body not_authorized)"
  by (simp_all add: server_error_def user_not_found_def not_authorized_def)

lemma no_password_success: "findById d i = Some x \<Longrightarrow> \<not> has_key ''password'' (body (success_data x))"
  using no_password_doc by (auto simp: success_data_def dest!: findById_Some)

lemma no_password_getUserProfile: "\<not> has_key ''password'' (body (getUserProfile d r))"
  by (auto simp: getUserProfile_def no_password_fixed no_password_success split: option.splits)

lemma no_password_updateUserProfile: "\<not> has_key ''password'' (body (fst (updateUserProfile d r b)))"
  by (auto simp: updateUserProfile_def findByIdAndUpdate_def Let_def no_password_fixed no_password_success
      split: option.splits sum.splits prod.splits)

lemma profile_routes_no_password:
  "\<not> has_key ''password'' (body (get_profile L d a))"
  "\<not> has_key ''password'' (body (fst (put_profile L d a b)))"
  using protect_cases [of L d a]
  by (auto simp: get_profile_def put_profile_def no_password_fixed no_password_getUserProfile
      no_password_updateUserProfile)

lemma applySelect_hide: "applySelect (toObject (u\<lparr>password := x\<rparr>)) = applySelect (toObject u)"
  by (simp add: applySelect_def toObject_def unselected_def)

lemma findById_hide: "findById (hide_passwords d) i = findById d i"
  by (induction d) (simp_all add: findById_def hide_passwords_def applySelect_hide)

lemma findById_hidden: "hide_passwords d = hide_passwords d' \<Longrightarrow> findById d i = findById d' i"
  by (metis findById_hide)

lemma applySet_password: "applySet c (u\<lparr>password := x\<rparr>) = (applySet c u)\<lparr>password := x\<rparr>"
  by (simp add: applySet_def split: option.splits)

lemma hide_updateFirst:
  "hide_passwords (updateFirst i (applySet c) d) = updateFirst i (applySet c) (hide_passwords d)"
  by (induction d) (simp_all add: hide_passwords_def applySet_password)

lemma findById_fun: "hide_passwords d = hide_passwords d' \<Longrightarrow> findById d = findById d'"
  by (rule ext) (rule findById_hidden)

lemma protect_hidden:
  assumes "hide_passwords d = hide_passwords d'"
  shows "protect L d a = protect L d' a"
  unfolding protect_def findById_fun [OF assms] ..

lemma getUserProfile_hidden:
  assumes "hide_passwords d = hide_passwords d'"
  shows "getUserProfile d r = getUserProfile d' r"
  unfolding getUserProfile_def findById_fun [OF assms] ..

lemma updateUserProfile_hidden:
  assumes "hide_passwords d = hide_passwords d'"
  shows "fst (updateUserProfile d r b) = fst (updateUserProfile d' r b)"
proof -
  have "findById (updateFirst i (applySet c) d) i = findById (updateFirst i (applySet c) d') i" for i c
    by (rule findById_hidden) (simp add: hide_updateFirst assms)
  then show ?thesis
    by (auto simp: updateUserProfile_def findByIdAndUpdate_def Let_def
        split: option.splits sum.splits prod.splits)
qed

lemma profile_routes_hidden:
  assumes "hide_passwords d = hide_passwords d'"
  shows "get_profile L d a = get_profile L d' a"
    and "fst (put_profile L d a b) = fst (put_profile L d' a b)"
  using updateUserProfile_hidden [OF assms]
  by (simp_all add: get_profile_def put_profile_def protect_hidden [OF assms]
      getUserProfile_hidden [OF assms] split: guard.splits)

end
